theory Spec2Isabelle
  imports Main "HOL-Library.Word"
begin

section \<open>Operating-system objects seen by the program\<close>

text \<open>
  The program (\<^verbatim>\<open>backend.c\<close>, and its monolithic twin \<^verbatim>\<open>main.c\<close>) talks to three
  facilities of the host system through opaque references. A reference is an address;
  \<^verbatim>\<open>NULL\<close> is the address 0.
\<close>

type_synonym ref = nat

abbreviation (input) NULL :: ref where
  "NULL \<equiv> 0"

type_synonym CGEventRef = ref
type_synonym MTDeviceRef = ref
type_synonym CFMutableArrayRef = ref
type_synonym CFMachPortRef = ref
type_synonym CFRunLoopSourceRef = ref
type_synonym IONotificationPortRef = ref
type_synonym io_object_t = ref

text \<open>
  Modelled from the spec: the event interface of the global pointer-event interception
  facility (section 6) is declared by the system headers, which are not part of the
  repository. An event has a category, integer-valued fields (one of them the button
  identifier), a position and a time stamp. The enumerations list the constants of the
  system interface by name; the source only names \<^verbatim>\<open>kCGEventLeftMouseDown\<close>,
  \<^verbatim>\<open>kCGEventLeftMouseUp\<close>, \<^verbatim>\<open>kCGEventOtherMouseDown\<close>, \<^verbatim>\<open>kCGEventOtherMouseUp\<close>,
  \<^verbatim>\<open>kCGMouseEventButtonNumber\<close> and \<^verbatim>\<open>kCGMouseButtonCenter\<close>.
\<close>

datatype CGEventType =
    kCGEventNull
  | kCGEventLeftMouseDown
  | kCGEventLeftMouseUp
  | kCGEventRightMouseDown
  | kCGEventRightMouseUp
  | kCGEventMouseMoved
  | kCGEventLeftMouseDragged
  | kCGEventRightMouseDragged
  | kCGEventKeyDown
  | kCGEventKeyUp
  | kCGEventFlagsChanged
  | kCGEventScrollWheel
  | kCGEventTabletPointer
  | kCGEventTabletProximity
  | kCGEventOtherMouseDown
  | kCGEventOtherMouseUp
  | kCGEventOtherMouseDragged
  | kCGEventTapDisabledByTimeout
  | kCGEventTapDisabledByUserInput

datatype CGEventField =
    kCGMouseEventNumber
  | kCGMouseEventClickState
  | kCGMouseEventPressure
  | kCGMouseEventButtonNumber
  | kCGMouseEventDeltaX
  | kCGMouseEventDeltaY
  | kCGMouseEventInstantMouser
  | kCGMouseEventSubtype

datatype CGMouseButton =
    kCGMouseButtonLeft
  | kCGMouseButtonRight
  | kCGMouseButtonCenter

text \<open>The integer a button constant stands for when it is stored in an event field.\<close>

fun CGMouseButton_value :: "CGMouseButton \<Rightarrow> 64 word" where
  "CGMouseButton_value kCGMouseButtonLeft = 0"
| "CGMouseButton_value kCGMouseButtonRight = 1"
| "CGMouseButton_value kCGMouseButtonCenter = 2"

text \<open>
  The position is kept as the bit patterns of its two coordinates and the time stamp as
  the 64-bit counter it is; the program never computes with either.
\<close>

record CGEvent =
  ev_type :: CGEventType
  ev_integer_fields :: "CGEventField \<Rightarrow> 64 word"
  ev_location :: "64 word \<times> 64 word"
  ev_timestamp :: "64 word"

text \<open>
  \<^verbatim>\<open>struct finger\<close> of \<^verbatim>\<open>multitouch.h\<close>: one contact of a frame. The program receives
  an array of them and never reads it, so the type is left opaque.
\<close>

typedecl finger

text \<open>
  Every call into the host system is logged, in order. The constructors carry the
  arguments that identify the object the call works on.
\<close>

datatype os_call =
    MTDeviceCreateList
  | MTRegisterContactFrameCallback MTDeviceRef
  | MTDeviceStart MTDeviceRef int
  | MTUnregisterContactFrameCallback MTDeviceRef
  | MTDeviceStop MTDeviceRef
  | MTDeviceRelease MTDeviceRef
  | CFRelease ref
  | CGEventTapCreate
  | CGEventTapEnable CFMachPortRef bool
  | CFMachPortCreateRunLoopSource CFMachPortRef
  | CFRunLoopAddSource ref
  | CFRunLoopRemoveSource CFRunLoopSourceRef
  | CFRunLoopRun
  | IONotificationPortCreate
  | IONotificationPortDestroy IONotificationPortRef
  | IOServiceAddMatchingNotification IONotificationPortRef
  | IOObjectRelease io_object_t
  | sleep nat
  | fputs string
  | fprintf string

section \<open>Program state\<close>

text \<open>
  \<^verbatim>\<open>current_fingers\<close> is the file-level \<^verbatim>\<open>static int\<close>, \<^verbatim>\<open>is_middle_click\<close> the
  function-local \<^verbatim>\<open>static bool\<close> of \<^verbatim>\<open>mouse_callback\<close>. The other fields are the part of
  the host system the program reads or changes: the event objects, the contents of the
  device arrays, the log of calls, and how often each answering call has been made.
\<close>

record world =
  current_fingers :: "32 word"
  is_middle_click :: bool
  cg_events :: "CGEventRef \<rightharpoonup> CGEvent"
  cf_arrays :: "CFMutableArrayRef \<Rightarrow> MTDeviceRef list"
  os_trace :: "os_call list"
  list_creates :: nat
  tap_creates :: nat
  src_creates :: nat
  loop_runs :: nat

definition emit :: "os_call \<Rightarrow> world \<Rightarrow> world" where
  "emit c w = w\<lparr>os_trace := os_trace w @ [c]\<rparr>"

text \<open>
  Modelled from the spec: \<^verbatim>\<open>CGEventSetType\<close> and \<^verbatim>\<open>CGEventSetIntegerValueField\<close> belong
  to the interception facility, not to the repository. Each overwrites the one field it
  names in the event object behind the reference (section 4.2: positional and timing
  fields stay as they are); on a reference that holds no event nothing happens.
\<close>

definition CGEventSetType :: "CGEventRef \<Rightarrow> CGEventType \<Rightarrow> world \<Rightarrow> world" where
  "CGEventSetType event t w =
     (case cg_events w event of
        None \<Rightarrow> w
      | Some e \<Rightarrow> w\<lparr>cg_events := (cg_events w)(event \<mapsto> e\<lparr>ev_type := t\<rparr>)\<rparr>)"

definition CGEventSetIntegerValueField ::
    "CGEventRef \<Rightarrow> CGEventField \<Rightarrow> 64 word \<Rightarrow> world \<Rightarrow> world" where
  "CGEventSetIntegerValueField event field v w =
     (case cg_events w event of
        None \<Rightarrow> w
      | Some e \<Rightarrow>
          w\<lparr>cg_events :=
              (cg_events w)(event \<mapsto> e\<lparr>ev_integer_fields := (ev_integer_fields e)(field := v)\<rparr>)\<rparr>)"

section \<open>Contact tracker and event transformer (\<^verbatim>\<open>backend.c\<close>)\<close>

text \<open>
  \<^verbatim>\<open>touch_callback\<close> stores \<^verbatim>\<open>nFingers\<close> and returns 0; the device, the contact array, the
  time stamp and the frame number are not read.
\<close>

definition touch_callback ::
    "32 word \<Rightarrow> finger list \<Rightarrow> 32 word \<Rightarrow> 64 word \<Rightarrow> 32 word \<Rightarrow> world \<Rightarrow> 32 word \<times> world" where
  "touch_callback device fingers nFingers timestamp frame w =
     (0, w\<lparr>current_fingers := nFingers\<rparr>)"

text \<open>
  \<^verbatim>\<open>mouse_callback\<close>: the guard returns the event at once; otherwise the \<^verbatim>\<open>switch\<close> has
  a case for the primary button going down, one for it going up, and no default.
\<close>

definition mouse_callback ::
    "ref \<Rightarrow> CGEventType \<Rightarrow> CGEventRef \<Rightarrow> ref \<Rightarrow> world \<Rightarrow> CGEventRef \<times> world" where
  "mouse_callback proxy type event refcon w =
     (if current_fingers w \<noteq> 3 \<and> \<not> is_middle_click w then (event, w)
      else
        (case type of
           kCGEventLeftMouseDown \<Rightarrow>
             (event,
              (CGEventSetIntegerValueField event kCGMouseEventButtonNumber
                 (CGMouseButton_value kCGMouseButtonCenter)
                 (CGEventSetType event kCGEventOtherMouseDown w))\<lparr>is_middle_click := True\<rparr>)
         | kCGEventLeftMouseUp \<Rightarrow>
             (event,
              (CGEventSetIntegerValueField event kCGMouseEventButtonNumber
                 (CGMouseButton_value kCGMouseButtonCenter)
                 (CGEventSetType event kCGEventOtherMouseUp w))\<lparr>is_middle_click := False\<rparr>)
         | _ \<Rightarrow> (event, w)))"

text \<open>Frame reports processed one after the other by the contact tracker.\<close>

record frame_report =
  fr_device :: "32 word"
  fr_fingers :: "finger list"
  fr_nFingers :: "32 word"
  fr_timestamp :: "64 word"
  fr_frame :: "32 word"

fun touch_frames :: "frame_report list \<Rightarrow> world \<Rightarrow> world" where
  "touch_frames [] w = w"
| "touch_frames (r # rest) w =
     touch_frames rest
       (snd (touch_callback (fr_device r) (fr_fingers r) (fr_nFingers r) (fr_timestamp r)
               (fr_frame r) w))"

section \<open>Answers of the host system\<close>

text \<open>
  What the host system answers is a parameter of the model. A call that can be made
  many times is answered by its position in the sequence of such calls (the counters of
  the \<^typ>\<open>world\<close>).
  \<^item> \<^verbatim>\<open>MTDeviceCreateList\<close>: the new array and its contents (\<^verbatim>\<open>NULL\<close>: no list);
  \<^item> \<^verbatim>\<open>CGEventTapCreate\<close>, \<^verbatim>\<open>CFMachPortCreateRunLoopSource\<close>: the new object or \<^verbatim>\<open>NULL\<close>;
  \<^item> \<^verbatim>\<open>IOServiceAddMatchingNotification\<close>: the status and the objects its iterator holds;
  \<^item> \<^verbatim>\<open>CFRunLoopRun\<close>: the callbacks it dispatches before it returns, or \<open>None\<close> when it
    never returns.
  Callbacks are dispatched one at a time, in the order given: the model is sequential.
\<close>

type_synonym kern_return_t = "32 word"

abbreviation (input) KERN_SUCCESS :: kern_return_t where
  "KERN_SUCCESS \<equiv> 0"

datatype delivery =
    TouchFrame frame_report
  | PointerEvent CGEventType CGEventRef
  | DeviceArrived

record os_env =
  MTDeviceCreateList_ret :: "nat \<Rightarrow> CFMutableArrayRef \<times> MTDeviceRef list"
  CGEventTapCreate_ret :: "nat \<Rightarrow> CFMachPortRef"
  CFMachPortCreateRunLoopSource_ret :: "nat \<Rightarrow> CFRunLoopSourceRef"
  IONotificationPortCreate_ret :: IONotificationPortRef
  IOServiceAddMatchingNotification_ret :: "kern_return_t \<times> io_object_t list"
  CFRunLoopRun_ret :: "nat \<Rightarrow> delivery list option"

text \<open>\<^verbatim>\<open>exit(status)\<close> ends the process; the world at that moment is kept.\<close>

datatype exited = exit int world

section \<open>Device subscription set (\<^verbatim>\<open>backend.c\<close>, \<^verbatim>\<open>backend.h\<close>)\<close>

record mt_devices =
  array :: CFMutableArrayRef
  len :: int

record fm_state =
  devices :: mt_devices
  port :: IONotificationPortRef
  tap_event :: CFMachPortRef
  run_loop_src :: CFRunLoopSourceRef

definition CFArrayGetCount :: "world \<Rightarrow> CFMutableArrayRef \<Rightarrow> int" where
  "CFArrayGetCount w a = int (length (cf_arrays w a))"

text \<open>
  The program reads an array only below the count it took when the array was made; an
  index outside the array reads as \<^verbatim>\<open>NULL\<close> here.
\<close>

definition CFArrayGetValueAtIndex :: "world \<Rightarrow> CFMutableArrayRef \<Rightarrow> int \<Rightarrow> MTDeviceRef" where
  "CFArrayGetValueAtIndex w a i =
     (if 0 \<le> i \<and> i < int (length (cf_arrays w a)) then cf_arrays w a ! nat i else NULL)"

definition multitouch_devices :: "os_env \<Rightarrow> world \<Rightarrow> exited + mt_devices \<times> world" where
  "multitouch_devices env w =
     (let (devs, contents) = MTDeviceCreateList_ret env (list_creates w);
          w1 = (emit MTDeviceCreateList w)
                 \<lparr>list_creates := list_creates w + 1,
                  cf_arrays := (if devs = NULL then cf_arrays w
                                else (cf_arrays w)(devs := contents))\<rparr>
      in if devs = NULL then
           Inl (exit 1
             (emit (fprintf ''Failed to create device list. No multitouch device found.\<newline>'') w1))
         else
           (let count = CFArrayGetCount w1 devs
            in if count = 0 then
                 Inl (exit 1
                   (emit (CFRelease devs) (emit (fprintf ''No Multitouch devices found.\<newline>'') w1)))
               else Inr (\<lparr>array = devs, len = count\<rparr>, w1)))"

text \<open>The \<^verbatim>\<open>for\<close> loop of \<^verbatim>\<open>devices_register\<close>, from index \<open>i\<close> on.\<close>

function devices_register_from :: "mt_devices \<Rightarrow> int \<Rightarrow> world \<Rightarrow> world" where
  "devices_register_from ds i w =
     (if i < len ds then
        (let device = CFArrayGetValueAtIndex w (array ds) i;
             w1 = (if device \<noteq> NULL then
                     emit (MTDeviceStart device 0) (emit (MTRegisterContactFrameCallback device) w)
                   else w)
         in devices_register_from ds (i + 1) w1)
      else w)"
  by pat_completeness auto
termination
  by (relation "measure (\<lambda>(ds, i, w). nat (len ds - i))") auto

declare devices_register_from.simps [simp del]

text \<open>The \<^verbatim>\<open>callback\<close> argument is not used: the body registers \<^verbatim>\<open>touch_callback\<close>.\<close>

definition devices_register :: "mt_devices \<Rightarrow> 'callback \<Rightarrow> world \<Rightarrow> world" where
  "devices_register ds callback w = devices_register_from ds 0 w"

text \<open>The \<^verbatim>\<open>for\<close> loop of \<^verbatim>\<open>devices_cleanup\<close>, from index \<open>i\<close> on.\<close>

function devices_cleanup_from :: "mt_devices \<Rightarrow> int \<Rightarrow> world \<Rightarrow> world" where
  "devices_cleanup_from ds i w =
     (if i < len ds then
        (let device = CFArrayGetValueAtIndex w (array ds) i;
             w1 = (if device \<noteq> NULL then
                     emit (MTDeviceRelease device)
                       (emit (MTDeviceStop device)
                          (emit (MTUnregisterContactFrameCallback device) w))
                   else w)
         in devices_cleanup_from ds (i + 1) w1)
      else w)"
  by pat_completeness auto
termination
  by (relation "measure (\<lambda>(ds, i, w). nat (len ds - i))") auto

declare devices_cleanup_from.simps [simp del]

text \<open>
  \<^verbatim>\<open>devices_cleanup\<close> takes the set by value: it has no way to change the caller's
  \<^verbatim>\<open>struct mt_devices\<close>, and its result is the world alone.
\<close>

definition devices_cleanup :: "mt_devices \<Rightarrow> world \<Rightarrow> world" where
  "devices_cleanup ds w = devices_cleanup_from ds 0 w"

text \<open>\<^verbatim>\<open>devices_refresh\<close> works through a pointer: the new set is returned.\<close>

definition devices_refresh :: "os_env \<Rightarrow> mt_devices \<Rightarrow> world \<Rightarrow> exited + mt_devices \<times> world" where
  "devices_refresh env ds w =
     (case multitouch_devices env (devices_cleanup ds w) of
        Inl e \<Rightarrow> Inl e
      | Inr (ds1, w1) \<Rightarrow> Inr (ds1, devices_register ds1 () w1))"

section \<open>Topology supervisor\<close>

definition device_notification_callback ::
    "os_env \<Rightarrow> mt_devices \<Rightarrow> 'iter \<Rightarrow> world \<Rightarrow> exited + mt_devices \<times> world" where
  "device_notification_callback env refcon iter w = devices_refresh env refcon w"

definition stop_io_notifications :: "fm_state \<Rightarrow> world \<Rightarrow> fm_state \<times> world" where
  "stop_io_notifications state w =
     (if port state \<noteq> NULL then
        (state\<lparr>port := NULL\<rparr>, emit (IONotificationPortDestroy (port state)) w)
      else (state, w))"

text \<open>\<^verbatim>\<open>while ((item = IOIteratorNext(iterator))) IOObjectRelease(item);\<close>\<close>

fun release_iterator :: "io_object_t list \<Rightarrow> world \<Rightarrow> world" where
  "release_iterator [] w = w"
| "release_iterator (item # rest) w =
     (if item \<noteq> NULL then release_iterator rest (emit (IOObjectRelease item) w) else w)"

definition listen_io_notification :: "os_env \<Rightarrow> fm_state \<Rightarrow> world \<Rightarrow> kern_return_t \<times> fm_state \<times> world" where
  "listen_io_notification env state w =
     (let state1 = state\<lparr>port := IONotificationPortCreate_ret env\<rparr>;
          w1 = emit IONotificationPortCreate w;
          w2 = emit (CFRunLoopAddSource (port state1)) w1;
          (kres, iterator) = IOServiceAddMatchingNotification_ret env;
          w3 = emit (IOServiceAddMatchingNotification (port state1)) w2
      in if kres = KERN_SUCCESS then (kres, state1, release_iterator iterator w3)
         else (kres, state1, w3))"

section \<open>Interception supervisor\<close>

definition stop_click_loop :: "fm_state \<Rightarrow> world \<Rightarrow> fm_state \<times> world" where
  "stop_click_loop state w =
     (let (state1, w1) =
            (if tap_event state \<noteq> NULL then
               (state\<lparr>tap_event := NULL\<rparr>,
                emit (CFRelease (tap_event state)) (emit (CGEventTapEnable (tap_event state) False) w))
             else (state, w))
      in if run_loop_src state1 \<noteq> NULL then
           (state1,
            emit (CFRelease (run_loop_src state1)) (emit (CFRunLoopRemoveSource (run_loop_src state1)) w1))
         else (state1, w1))"

text \<open>One callback dispatched by the run loop.\<close>

definition deliver :: "os_env \<Rightarrow> delivery \<Rightarrow> fm_state \<Rightarrow> world \<Rightarrow> exited + fm_state \<times> world" where
  "deliver env d state w =
     (case d of
        TouchFrame r \<Rightarrow>
          Inr (state,
               snd (touch_callback (fr_device r) (fr_fingers r) (fr_nFingers r) (fr_timestamp r)
                      (fr_frame r) w))
      | PointerEvent type event \<Rightarrow> Inr (state, snd (mouse_callback NULL type event NULL w))
      | DeviceArrived \<Rightarrow>
          (case device_notification_callback env (devices state) () w of
             Inl e \<Rightarrow> Inl e
           | Inr (ds1, w1) \<Rightarrow> Inr (state\<lparr>devices := ds1\<rparr>, w1)))"

fun deliver_all :: "os_env \<Rightarrow> delivery list \<Rightarrow> fm_state \<Rightarrow> world \<Rightarrow> exited + fm_state \<times> world" where
  "deliver_all env [] state w = Inr (state, w)"
| "deliver_all env (d # rest) state w =
     (case deliver env d state w of
        Inl e \<Rightarrow> Inl e
      | Inr (state1, w1) \<Rightarrow> deliver_all env rest state1 w1)"

text \<open>
  Modelled from the spec: \<^verbatim>\<open>CFRunLoopRun\<close> is the dispatch loop of the host system
  (sections 4.5 and 5): it blocks, dispatching callbacks, until the loop is stopped, and
  may never return (\<open>None\<close>).
\<close>

definition CFRunLoopRun_call ::
    "os_env \<Rightarrow> fm_state \<Rightarrow> world \<Rightarrow> (exited + fm_state \<times> world) option" where
  "CFRunLoopRun_call env state w =
     (case CFRunLoopRun_ret env (loop_runs w) of
        None \<Rightarrow> None
      | Some ds \<Rightarrow>
          Some (deliver_all env ds state ((emit CFRunLoopRun w)\<lparr>loop_runs := loop_runs w + 1\<rparr>)))"

text \<open>
  The \<^verbatim>\<open>for\<close> loop at the head of \<^verbatim>\<open>listen_click_loop\<close>, from counter \<open>i\<close> on. The
  counter stays within 0 to 300, far from the range of \<^verbatim>\<open>int\<close>.
\<close>

function tap_create_from :: "os_env \<Rightarrow> int \<Rightarrow> fm_state \<Rightarrow> world \<Rightarrow> fm_state \<times> world" where
  "tap_create_from env i state w =
     (if tap_event state = NULL \<and> i < 300 then
        (let state1 = state\<lparr>tap_event := CGEventTapCreate_ret env (tap_creates w)\<rparr>;
             w1 = (emit CGEventTapCreate w)\<lparr>tap_creates := tap_creates w + 1\<rparr>;
             w2 = (if tap_event state1 = NULL then emit (sleep 1) w1 else w1)
         in tap_create_from env (i + 1) state1 w2)
      else (state, w))"
  by pat_completeness auto
termination
  by (relation "measure (\<lambda>(env, i, state, w). nat (300 - i))") auto

declare tap_create_from.simps [simp del]

definition permission_message :: string where
  "permission_message = ''Failed to create event tap. Check accessibility permissions.''"

definition listen_click_loop ::
    "os_env \<Rightarrow> fm_state \<Rightarrow> world \<Rightarrow> (exited + int \<times> fm_state \<times> world) option" where
  "listen_click_loop env state w =
     (let (state1, w1) = tap_create_from env 0 state w
      in if tap_event state1 = NULL then
           Some (Inr (1, state1, emit (fputs permission_message) w1))
         else
           (let state2 = state1\<lparr>run_loop_src := CFMachPortCreateRunLoopSource_ret env (src_creates w1)\<rparr>;
                w2 = (emit (CFMachPortCreateRunLoopSource (tap_event state1)) w1)
                       \<lparr>src_creates := src_creates w1 + 1\<rparr>
            in if run_loop_src state2 = NULL then
                 Some (Inr (1, state2, emit (fputs ''Failed to create run loop source.'') w2))
               else
                 (let w3 = emit (CFRunLoopAddSource (run_loop_src state2)) w2;
                      w4 = emit (CGEventTapEnable (tap_event state2) True) w3
                  in case CFRunLoopRun_call env state2 w4 of
                       None \<Rightarrow> None
                     | Some (Inl e) \<Rightarrow> Some (Inl e)
                     | Some (Inr (state3, w5)) \<Rightarrow>
                         (let (state4, w6) = stop_click_loop state3 w5
                          in Some (Inr (0, state4, w6))))))"

section \<open>Run controller\<close>

definition new_state :: "os_env \<Rightarrow> world \<Rightarrow> exited + fm_state \<times> world" where
  "new_state env w =
     (case multitouch_devices env w of
        Inl e \<Rightarrow> Inl e
      | Inr (ds, w1) \<Rightarrow>
          Inr (\<lparr>devices = ds, port = NULL, tap_event = NULL, run_loop_src = NULL\<rparr>, w1))"

text \<open>The endless \<^verbatim>\<open>for (;;)\<close> of \<^verbatim>\<open>run_click_loop\<close>; \<open>None\<close> when it never returns.\<close>

partial_function (option) click_loop_forever ::
    "os_env \<Rightarrow> fm_state \<Rightarrow> world \<Rightarrow> (exited + fm_state \<times> world) option" where
  "click_loop_forever env state w =
     (case listen_click_loop env state w of
        None \<Rightarrow> None
      | Some (Inl e) \<Rightarrow> Some (Inl e)
      | Some (Inr (rc, state1, w1)) \<Rightarrow>
          if rc \<noteq> 0 then
            (let w2 = devices_cleanup (devices state1) w1;
                 (state2, w3) = stop_io_notifications state1 w2
             in Some (Inr (state2, w3)))
          else click_loop_forever env state1 w1)"

declare click_loop_forever.simps [code]

definition run_click_loop ::
    "os_env \<Rightarrow> fm_state \<Rightarrow> world \<Rightarrow> (exited + fm_state \<times> world) option" where
  "run_click_loop env state w =
     (let w1 = devices_register (devices state) () w;
          (kres, state1, w2) = listen_io_notification env state w1
      in if kres \<noteq> KERN_SUCCESS then
           (let w3 = emit (fputs ''Failed to add device notification.'') w2;
                (state2, w4) = stop_io_notifications state1 w3;
                w5 = devices_cleanup (devices state2) w4
            in Some (Inr (state2, w5)))
         else click_loop_forever env state1 w2)"

definition state_cleanup :: "fm_state \<Rightarrow> world \<Rightarrow> fm_state \<times> world" where
  "state_cleanup state w =
     (let (state1, w1) = stop_io_notifications state w;
          (state2, w2) = stop_click_loop state1 w1
      in (state2, devices_cleanup (devices state2) w2))"

section \<open>Contact tracker and event transformer (\<^verbatim>\<open>main.c\<close>)\<close>

definition main_touch_callback ::
    "32 word \<Rightarrow> finger list \<Rightarrow> 32 word \<Rightarrow> 64 word \<Rightarrow> 32 word \<Rightarrow> world \<Rightarrow> 32 word \<times> world" where
  "main_touch_callback device fingers nFingers timestamp frame w =
     (0, w\<lparr>current_fingers := nFingers\<rparr>)"

definition main_mouse_callback ::
    "ref \<Rightarrow> CGEventType \<Rightarrow> CGEventRef \<Rightarrow> ref \<Rightarrow> world \<Rightarrow> CGEventRef \<times> world" where
  "main_mouse_callback proxy type event refcon w =
     (if current_fingers w \<noteq> 3 \<and> \<not> is_middle_click w then (event, w)
      else
        (case type of
           kCGEventLeftMouseDown \<Rightarrow>
             (event,
              (CGEventSetIntegerValueField event kCGMouseEventButtonNumber
                 (CGMouseButton_value kCGMouseButtonCenter)
                 (CGEventSetType event kCGEventOtherMouseDown w))\<lparr>is_middle_click := True\<rparr>)
         | kCGEventLeftMouseUp \<Rightarrow>
             (event,
              (CGEventSetIntegerValueField event kCGMouseEventButtonNumber
                 (CGMouseButton_value kCGMouseButtonCenter)
                 (CGEventSetType event kCGEventOtherMouseUp w))\<lparr>is_middle_click := False\<rparr>)
         | _ \<Rightarrow> (event, w)))"







section \<open>Vocabulary of the statements\<close>

text \<open>What a rewrite leaves in the event object: the category \<open>t\<close> and the centre button.\<close>

definition rewritten_as :: "CGEventType \<Rightarrow> CGEvent \<Rightarrow> CGEvent" where
  "rewritten_as t e =
     e\<lparr>ev_type := t,
       ev_integer_fields :=
         (ev_integer_fields e)(kCGMouseEventButtonNumber := CGMouseButton_value kCGMouseButtonCenter)\<rparr>"

text \<open>The non-\<^verbatim>\<open>NULL\<close> handles a set lists, in index order.\<close>

definition set_handles_from :: "world \<Rightarrow> mt_devices \<Rightarrow> int \<Rightarrow> MTDeviceRef list" where
  "set_handles_from w ds i =
     filter (\<lambda>d. d \<noteq> NULL) (map (CFArrayGetValueAtIndex w (array ds)) [i..len ds - 1])"

definition set_handles :: "world \<Rightarrow> mt_devices \<Rightarrow> MTDeviceRef list" where
  "set_handles w ds = set_handles_from w ds 0"

definition register_calls :: "MTDeviceRef list \<Rightarrow> os_call list" where
  "register_calls hs =
     concat (map (\<lambda>d. [MTRegisterContactFrameCallback d, MTDeviceStart d 0]) hs)"

definition teardown_calls :: "MTDeviceRef list \<Rightarrow> os_call list" where
  "teardown_calls hs =
     concat (map (\<lambda>d. [MTUnregisterContactFrameCallback d, MTDeviceStop d, MTDeviceRelease d]) hs)"

text \<open>\<open>n\<close> failed attempts to create the event tap, each followed by its one-second wait.\<close>

definition failed_attempts :: "nat \<Rightarrow> os_call list" where
  "failed_attempts n = concat (replicate n [CGEventTapCreate, sleep 1])"

text \<open>The calls of the acquisition phase: an attempt, a wait, the permission report.\<close>

fun acquisition_call :: "os_call \<Rightarrow> bool" where
  "acquisition_call CGEventTapCreate = True"
| "acquisition_call (sleep n) = True"
| "acquisition_call (fputs m) = (m = permission_message)"
| "acquisition_call c = False"



text \<open>
  \<open>w'\<close> continues the log of \<open>w\<close>, and what it adds holds no call of the acquisition
  phase.
\<close>

definition quiet_since :: "world \<Rightarrow> world \<Rightarrow> bool" where
  "quiet_since w w' =
     (take (length (os_trace w)) (os_trace w') = os_trace w \<and>
      list_all (\<lambda>c. \<not> acquisition_call c) (drop (length (os_trace w)) (os_trace w')))"

text \<open>The calls the three teardown steps make, read off the state they start from.\<close>

definition iterator_calls :: "io_object_t list \<Rightarrow> os_call list" where
  "iterator_calls items = map IOObjectRelease (takeWhile (\<lambda>item. item \<noteq> NULL) items)"

definition stop_click_calls :: "fm_state \<Rightarrow> os_call list" where
  "stop_click_calls state =
     (if tap_event state \<noteq> NULL
      then [CGEventTapEnable (tap_event state) False, CFRelease (tap_event state)] else []) @
     (if run_loop_src state \<noteq> NULL
      then [CFRunLoopRemoveSource (run_loop_src state), CFRelease (run_loop_src state)] else [])"

definition stop_io_calls :: "fm_state \<Rightarrow> os_call list" where
  "stop_io_calls state =
     (if port state \<noteq> NULL then [IONotificationPortDestroy (port state)] else [])"

section \<open>Concrete inputs\<close>

definition example_event :: CGEvent where
  "example_event =
     \<lparr>ev_type = kCGEventLeftMouseDown, ev_integer_fields = (\<lambda>f. 0),
      ev_location = (10, 20), ev_timestamp = 99\<rparr>"

definition example_up_event :: CGEvent where
  "example_up_event =
     \<lparr>ev_type = kCGEventLeftMouseUp, ev_integer_fields = (\<lambda>f. 0),
      ev_location = (10, 20), ev_timestamp = 107\<rparr>"

text \<open>
  Two event objects, a button press at address 7 and a release at address 8, and one
  device array at address 5 with a \<^verbatim>\<open>NULL\<close> entry.
\<close>

definition example_world :: world where
  "example_world =
     \<lparr>current_fingers = 0, is_middle_click = False,
      cg_events = [7 \<mapsto> example_event, 8 \<mapsto> example_up_event],
      cf_arrays = (\<lambda>a. [])(5 := [11, NULL, 12]),
      os_trace = [], list_creates = 0, tap_creates = 0, src_creates = 0, loop_runs = 0\<rparr>"

definition example_devices :: mt_devices where
  "example_devices = \<lparr>array = 5, len = 3\<rparr>"

definition example_state :: fm_state where
  "example_state =
     \<lparr>devices = example_devices, port = NULL, tap_event = NULL, run_loop_src = NULL\<rparr>"

definition example_frame :: "32 word \<Rightarrow> frame_report" where
  "example_frame n =
     \<lparr>fr_device = 1, fr_fingers = [], fr_nFingers = n, fr_timestamp = 0, fr_frame = 0\<rparr>"

text \<open>A host that never grants the event tap.\<close>

definition env_denied :: os_env where
  "env_denied =
     \<lparr>MTDeviceCreateList_ret = (\<lambda>k. (5, [11, NULL, 12])),
      CGEventTapCreate_ret = (\<lambda>k. NULL),
      CFMachPortCreateRunLoopSource_ret = (\<lambda>k. NULL),
      IONotificationPortCreate_ret = 3,
      IOServiceAddMatchingNotification_ret = (KERN_SUCCESS, [21, 22]),
      CFRunLoopRun_ret = (\<lambda>k. None)\<rparr>"


text \<open>
  A host that grants the tap at the third attempt; its run loop then dispatches a
  three-finger click whose fingers lift before the button is released, and returns.
\<close>

definition env_granted :: os_env where
  "env_granted =
     \<lparr>MTDeviceCreateList_ret = (\<lambda>k. (5, [11, NULL, 12])),
      CGEventTapCreate_ret = (\<lambda>k. if k < 2 then NULL else 40),
      CFMachPortCreateRunLoopSource_ret = (\<lambda>k. 41),
      IONotificationPortCreate_ret = 3,
      IOServiceAddMatchingNotification_ret = (KERN_SUCCESS, [21, 22]),
      CFRunLoopRun_ret =
        (\<lambda>k. Some [TouchFrame (example_frame 3), PointerEvent kCGEventLeftMouseDown 7,
                    TouchFrame (example_frame 0), PointerEvent kCGEventLeftMouseUp 8])\<rparr>"

section \<open>Event transformer and contact tracker: the claims\<close>

lemma CGEventSetType_Some:
  "cg_events w event = Some e \<Longrightarrow>
     CGEventSetType event t w = w\<lparr>cg_events := (cg_events w)(event \<mapsto> e\<lparr>ev_type := t\<rparr>)\<rparr>"
  by (simp add: CGEventSetType_def)

lemma CGEventSetIntegerValueField_Some:
  "cg_events w event = Some e \<Longrightarrow>
     CGEventSetIntegerValueField event field v w =
       w\<lparr>cg_events :=
           (cg_events w)(event \<mapsto> e\<lparr>ev_integer_fields := (ev_integer_fields e)(field := v)\<rparr>)\<rparr>"
  by (simp add: CGEventSetIntegerValueField_def)

lemma rewrite_Some:
  assumes "cg_events w event = Some e"
  shows "CGEventSetIntegerValueField event field v (CGEventSetType event t w) =
         w\<lparr>cg_events :=
             (cg_events w)(event \<mapsto>
                e\<lparr>ev_type := t, ev_integer_fields := (ev_integer_fields e)(field := v)\<rparr>)\<rparr>"
proof -
  have "cg_events (CGEventSetType event t w) event = Some (e\<lparr>ev_type := t\<rparr>)"
    using assms by (simp add: CGEventSetType_Some)
  then show ?thesis
    using assms by (simp add: CGEventSetIntegerValueField_Some CGEventSetType_Some)
qed

lemma rewrite_None:
  assumes "cg_events w event = None"
  shows "CGEventSetIntegerValueField event field v (CGEventSetType event t w) = w"
  using assms by (simp add: CGEventSetIntegerValueField_def CGEventSetType_def)

text \<open>
  Claim C1, as the code has it. The guard of \<^const>\<open>mouse_callback\<close> compares the contact
  count with 3 by \<open>\<noteq>\<close>: a primary-button down event that arrives while the conversion
  flag is false and the contact count is exactly 3 is rewritten in place to a
  secondary-button (centre) down event, the same event is returned, and the flag becomes
  true; with the flag false and any other contact count (more than 3 included) the down
  event is returned unmodified.
\<close>

theorem down_three_fingers_rewritten:
  assumes "\<not> is_middle_click w"
  shows "(current_fingers w = 3 \<and> cg_events w event = Some e \<longrightarrow>
            mouse_callback proxy kCGEventLeftMouseDown event refcon w =
              (event, w\<lparr>cg_events := (cg_events w)(event \<mapsto> rewritten_as kCGEventOtherMouseDown e),
                        is_middle_click := True\<rparr>)) \<and>
         (current_fingers w \<noteq> 3 \<longrightarrow>
            mouse_callback proxy kCGEventLeftMouseDown event refcon w = (event, w))"
  using assms by (simp add: mouse_callback_def rewrite_Some rewritten_as_def)

text \<open>
  The statement of C1 at a concrete world with three contacts, and at the same world with
  five.
\<close>

theorem down_three_fingers_rewritten_witness:
  "\<not> is_middle_click (example_world\<lparr>current_fingers := 3\<rparr>) \<and>
   current_fingers (example_world\<lparr>current_fingers := 3\<rparr>) = 3 \<and>
   mouse_callback NULL kCGEventLeftMouseDown 7 NULL (example_world\<lparr>current_fingers := 3\<rparr>) =
     (7, example_world
           \<lparr>current_fingers := 3,
            cg_events :=
              [7 \<mapsto> example_event
                      \<lparr>ev_type := kCGEventOtherMouseDown,
                       ev_integer_fields := (\<lambda>f. 0)(kCGMouseEventButtonNumber := 2)\<rparr>,
               8 \<mapsto> example_up_event],
            is_middle_click := True\<rparr>) \<and>
   mouse_callback NULL kCGEventLeftMouseDown 7 NULL (example_world\<lparr>current_fingers := 5\<rparr>) =
     (7, example_world\<lparr>current_fingers := 5\<rparr>)"
proof -
  let ?w = "example_world\<lparr>current_fingers := 3\<rparr>"
  let ?v = "example_world\<lparr>current_fingers := 5\<rparr>"
  have flag: "\<not> is_middle_click ?w" and count: "current_fingers ?w = 3"
    and obj: "cg_events ?w 7 = Some example_event"
    and flag5: "\<not> is_middle_click ?v" and count5: "current_fingers ?v \<noteq> 3"
    by (simp_all add: example_world_def)
  have upd: "(cg_events ?w)(7 \<mapsto> rewritten_as kCGEventOtherMouseDown example_event) =
        [7 \<mapsto> example_event
                \<lparr>ev_type := kCGEventOtherMouseDown,
                 ev_integer_fields := (\<lambda>f. 0)(kCGMouseEventButtonNumber := 2)\<rparr>,
         8 \<mapsto> example_up_event]"
    by (auto simp add: example_world_def example_event_def rewritten_as_def)
  from down_three_fingers_rewritten [OF flag, of 7 example_event NULL NULL] count obj
  have three: "mouse_callback NULL kCGEventLeftMouseDown 7 NULL ?w =
      (7, ?w\<lparr>cg_events := (cg_events ?w)(7 \<mapsto> rewritten_as kCGEventOtherMouseDown example_event),
              is_middle_click := True\<rparr>)"
    by blast
  from down_three_fingers_rewritten [OF flag5, of 7 example_event NULL NULL] count5
  have five: "mouse_callback NULL kCGEventLeftMouseDown 7 NULL ?v = (7, ?v)"
    by blast
  show ?thesis
    using flag count five by (simp only: three upd) simp
qed

text \<open>
  C1 as the specification words it (a count of at least 3) fails: with four contacts and
  the flag false, the down event is returned unchanged and the flag stays false.
\<close>

theorem down_four_fingers_counterexample:
  "3 \<le> sint (current_fingers (example_world\<lparr>current_fingers := 4\<rparr>)) \<and>
   \<not> is_middle_click (example_world\<lparr>current_fingers := 4\<rparr>) \<and>
   cg_events (example_world\<lparr>current_fingers := 4\<rparr>) 7 = Some example_event \<and>
   ev_type example_event = kCGEventLeftMouseDown \<and>
   mouse_callback NULL kCGEventLeftMouseDown 7 NULL (example_world\<lparr>current_fingers := 4\<rparr>) =
     (7, example_world\<lparr>current_fingers := 4\<rparr>)"
  by (simp add: mouse_callback_def example_world_def example_event_def)

text \<open>
  What the guard gives for a release outside a conversion: with the flag false and a
  contact count other than 3, a primary-button up event passes through unmodified and the
  flag stays false.
\<close>

lemma up_idle_passes:
  assumes "\<not> is_middle_click w" and "current_fingers w \<noteq> 3"
  shows "mouse_callback proxy kCGEventLeftMouseUp event refcon w = (event, w)"
  using assms by (simp add: mouse_callback_def)

text \<open>
  Claim C2, at the input where the code departs from it: the flag is false and exactly
  three contacts are down when the primary button is released. The guard does not look
  at the kind of event, so the release is rewritten to a secondary-button up although no
  press was converted. In the stream frame(2), press, frame(3), release the press stays a
  primary-button down, the release becomes a secondary-button up, and the flag is false
  before and after: the primary button is never released.
\<close>

theorem release_with_third_contact_unpaired:
  "\<not> is_middle_click (example_world\<lparr>current_fingers := 3\<rparr>) \<and>
   cg_events (example_world\<lparr>current_fingers := 3\<rparr>) 8 = Some example_up_event \<and>
   ev_type example_up_event = kCGEventLeftMouseUp \<and>
   mouse_callback NULL kCGEventLeftMouseUp 8 NULL (example_world\<lparr>current_fingers := 3\<rparr>) =
     (8, example_world
           \<lparr>current_fingers := 3,
            cg_events := [7 \<mapsto> example_event,
                           8 \<mapsto> rewritten_as kCGEventOtherMouseUp example_up_event]\<rparr>) \<and>
   ev_type (rewritten_as kCGEventOtherMouseUp example_up_event) = kCGEventOtherMouseUp \<and>
   deliver_all env_denied
     [TouchFrame (example_frame 2), PointerEvent kCGEventLeftMouseDown 7,
      TouchFrame (example_frame 3), PointerEvent kCGEventLeftMouseUp 8]
     example_state example_world =
     Inr (example_state,
          example_world
            \<lparr>current_fingers := 3,
             cg_events := [7 \<mapsto> example_event,
                            8 \<mapsto> rewritten_as kCGEventOtherMouseUp example_up_event]\<rparr>) \<and>
   ev_type example_event = kCGEventLeftMouseDown"
proof -
  let ?w = "example_world\<lparr>current_fingers := 3\<rparr>"
  let ?w' = "example_world
               \<lparr>current_fingers := 3,
                cg_events := [7 \<mapsto> example_event,
                               8 \<mapsto> rewritten_as kCGEventOtherMouseUp example_up_event]\<rparr>"
  have idle: "\<not> is_middle_click ?w" and obj: "cg_events ?w 8 = Some example_up_event"
    by (simp_all add: example_world_def)
  have release: "mouse_callback NULL kCGEventLeftMouseUp 8 NULL ?w = (8, ?w')"
    by (simp add: mouse_callback_def rewrite_Some rewritten_as_def example_world_def)
  have press: "mouse_callback NULL kCGEventLeftMouseDown 7 NULL
                 (example_world\<lparr>current_fingers := 2\<rparr>) =
               (7, example_world\<lparr>current_fingers := 2\<rparr>)"
    by (simp add: mouse_callback_def example_world_def)
  have stream: "deliver_all env_denied
     [TouchFrame (example_frame 2), PointerEvent kCGEventLeftMouseDown 7,
      TouchFrame (example_frame 3), PointerEvent kCGEventLeftMouseUp 8]
     example_state example_world = Inr (example_state, ?w')"
    by (simp add: deliver_def touch_callback_def example_frame_def press release)
  show ?thesis
    using idle obj release stream
    by (simp add: example_up_event_def example_event_def rewritten_as_def)
qed

text \<open>
  Claim C3, as the code has it: while the flag is true the guard lets every event reach
  the \<^verbatim>\<open>switch\<close>, so a primary-button down event is rewritten to a secondary-button down
  for every contact count, and the flag stays true.
\<close>

theorem down_while_converting_rewritten:
  assumes "is_middle_click w" and "cg_events w event = Some e"
  shows "mouse_callback proxy kCGEventLeftMouseDown event refcon w =
           (event, w\<lparr>cg_events := (cg_events w)(event \<mapsto> rewritten_as kCGEventOtherMouseDown e),
                     is_middle_click := True\<rparr>)"
  using assms by (simp add: mouse_callback_def rewrite_Some rewritten_as_def)

text \<open>The statement of C3 at a world with no contact and the flag set.\<close>

theorem down_while_converting_rewritten_witness:
  "is_middle_click (example_world\<lparr>is_middle_click := True\<rparr>) \<and>
   cg_events (example_world\<lparr>is_middle_click := True\<rparr>) 7 = Some example_event \<and>
   mouse_callback NULL kCGEventLeftMouseDown 7 NULL (example_world\<lparr>is_middle_click := True\<rparr>) =
     (7, example_world
           \<lparr>is_middle_click := True,
            cg_events :=
              (cg_events example_world)(7 \<mapsto> rewritten_as kCGEventOtherMouseDown example_event)\<rparr>)"
proof -
  let ?w = "example_world\<lparr>is_middle_click := True\<rparr>"
  have flag: "is_middle_click ?w" and obj: "cg_events ?w 7 = Some example_event"
    by (simp_all add: example_world_def)
  show ?thesis
    using down_while_converting_rewritten [OF flag obj, of NULL NULL] flag obj by simp
qed

text \<open>
  C3 as the specification words it (pass-through) fails: with the flag true and no contact,
  the category and the button field of the down event are both rewritten.
\<close>

theorem down_while_converting_counterexample:
  "is_middle_click (example_world\<lparr>is_middle_click := True\<rparr>) \<and>
   current_fingers (example_world\<lparr>is_middle_click := True\<rparr>) = 0 \<and>
   cg_events (example_world\<lparr>is_middle_click := True\<rparr>) 7 = Some example_event \<and>
   ev_type example_event = kCGEventLeftMouseDown \<and>
   ev_integer_fields example_event kCGMouseEventButtonNumber = 0 \<and>
   map_option ev_type
     (cg_events
        (snd (mouse_callback NULL kCGEventLeftMouseDown 7 NULL
                (example_world\<lparr>is_middle_click := True\<rparr>))) 7) = Some kCGEventOtherMouseDown \<and>
   map_option (\<lambda>e. ev_integer_fields e kCGMouseEventButtonNumber)
     (cg_events
        (snd (mouse_callback NULL kCGEventLeftMouseDown 7 NULL
                (example_world\<lparr>is_middle_click := True\<rparr>))) 7) = Some 2"
  by (simp add: mouse_callback_def rewrite_Some example_world_def example_event_def)

text \<open>
  Claim C4: a primary-button up event that arrives while the flag is true is rewritten to
  a secondary-button (centre) up event and the flag becomes false, whatever the contact
  count is (the statement does not constrain \<^const>\<open>current_fingers\<close>).
\<close>

theorem up_while_converting_rewritten:
  assumes "is_middle_click w" and "cg_events w event = Some e"
  shows "mouse_callback proxy kCGEventLeftMouseUp event refcon w =
           (event, w\<lparr>cg_events := (cg_events w)(event \<mapsto> rewritten_as kCGEventOtherMouseUp e),
                     is_middle_click := False\<rparr>)"
  using assms by (simp add: mouse_callback_def rewrite_Some rewritten_as_def)

text \<open>The statement of C4 with the fingers already lifted (count 0).\<close>

theorem up_while_converting_rewritten_witness:
  "is_middle_click (example_world\<lparr>is_middle_click := True\<rparr>) \<and>
   current_fingers (example_world\<lparr>is_middle_click := True\<rparr>) = 0 \<and>
   cg_events (example_world\<lparr>is_middle_click := True\<rparr>) 8 = Some example_up_event \<and>
   mouse_callback NULL kCGEventLeftMouseUp 8 NULL (example_world\<lparr>is_middle_click := True\<rparr>) =
     (8, example_world
           \<lparr>cg_events :=
              (cg_events example_world)(8 \<mapsto> rewritten_as kCGEventOtherMouseUp example_up_event)\<rparr>)"
proof -
  let ?w = "example_world\<lparr>is_middle_click := True\<rparr>"
  have flag: "is_middle_click ?w" and obj: "cg_events ?w 8 = Some example_up_event"
    and count: "current_fingers ?w = 0" and idle: "\<not> is_middle_click example_world"
    by (simp_all add: example_world_def)
  have restored: "?w\<lparr>cg_events :=
                  (cg_events ?w)(8 \<mapsto> rewritten_as kCGEventOtherMouseUp example_up_event),
                is_middle_click := False\<rparr> =
              example_world
                \<lparr>cg_events :=
                   (cg_events example_world)(8 \<mapsto> rewritten_as kCGEventOtherMouseUp example_up_event)\<rparr>"
    using idle by (cases example_world) simp
  show ?thesis
    using up_while_converting_rewritten [OF flag obj, of NULL NULL] flag obj count
    by (simp only: restored)
qed

lemma touch_frames_append:
  "touch_frames (xs @ ys) w = touch_frames ys (touch_frames xs w)"
  by (induction xs arbitrary: w) simp_all

lemma touch_frames_only_count:
  "touch_frames frames w = w\<lparr>current_fingers := current_fingers (touch_frames frames w)\<rparr>"
proof (induction frames arbitrary: w)
  case Nil
  show ?case by simp
next
  case (Cons r frames)
  let ?w1 = "w\<lparr>current_fingers := fr_nFingers r\<rparr>"
  have "touch_frames (r # frames) w = touch_frames frames ?w1"
    by (simp add: touch_callback_def)
  also have "\<dots> = ?w1\<lparr>current_fingers := current_fingers (touch_frames frames ?w1)\<rparr>"
    by (rule Cons.IH)
  finally show ?case by (simp add: touch_callback_def)
qed

text \<open>
  Claim C5: after any finite sequence of frame reports that ends with the report \<open>r\<close>,
  the world is the starting world with the contact count overwritten by the count of
  \<open>r\<close>; nothing of the earlier reports remains, and no count is rejected. Each single
  call stores its argument and returns 0.
\<close>

theorem last_frame_wins:
  "touch_frames (frames @ [r]) w = w\<lparr>current_fingers := fr_nFingers r\<rparr> \<and>
   touch_callback (fr_device r) (fr_fingers r) (fr_nFingers r) (fr_timestamp r) (fr_frame r) w =
     (0, w\<lparr>current_fingers := fr_nFingers r\<rparr>)"
proof -
  have "touch_frames (frames @ [r]) w =
          (touch_frames frames w)\<lparr>current_fingers := fr_nFingers r\<rparr>"
    by (simp add: touch_frames_append touch_callback_def)
  also have "\<dots> = w\<lparr>current_fingers := fr_nFingers r\<rparr>"
    by (subst touch_frames_only_count) simp
  finally show ?thesis by (simp add: touch_callback_def)
qed

text \<open>The statement of C5 on four reports, one of them with a negative count.\<close>

theorem last_frame_wins_witness:
  "current_fingers
     (touch_frames [example_frame 3, example_frame 5, example_frame (- 1), example_frame 2]
        example_world) = 2"
  using last_frame_wins
          [of "[example_frame 3, example_frame 5, example_frame (- 1)]" "example_frame 2" example_world]
  by (simp add: example_frame_def)


text \<open>
  Claim C8: the transformer returns the event reference it was given; it neither creates
  nor removes an event object; every other event object is unchanged; in the object it
  was given, the position, the time stamp and every integer field but the button number
  are unchanged (only the category and the button number can differ); and the contact
  count, the device arrays and the log of system calls are unchanged. The result type has
  no error alternative: the function is total.
\<close>

theorem transformer_touches_two_fields:
  "fst (mouse_callback proxy type event refcon w) = event \<and>
   dom (cg_events (snd (mouse_callback proxy type event refcon w))) = dom (cg_events w) \<and>
   (\<forall>r. r \<noteq> event \<longrightarrow>
      cg_events (snd (mouse_callback proxy type event refcon w)) r = cg_events w r) \<and>
   (\<forall>e. cg_events w event = Some e \<longrightarrow>
      (\<exists>e'. cg_events (snd (mouse_callback proxy type event refcon w)) event = Some e' \<and>
         ev_location e' = ev_location e \<and> ev_timestamp e' = ev_timestamp e \<and>
         (\<forall>f. f \<noteq> kCGMouseEventButtonNumber \<longrightarrow>
            ev_integer_fields e' f = ev_integer_fields e f))) \<and>
   current_fingers (snd (mouse_callback proxy type event refcon w)) = current_fingers w \<and>
   cf_arrays (snd (mouse_callback proxy type event refcon w)) = cf_arrays w \<and>
   os_trace (snd (mouse_callback proxy type event refcon w)) = os_trace w"
proof (cases "current_fingers w \<noteq> 3 \<and> \<not> is_middle_click w")
  case True
  then show ?thesis by (simp add: mouse_callback_def)
next
  case converting: False
  show ?thesis
  proof (cases "cg_events w event")
    case None
    then show ?thesis
      using converting by (cases type) (simp_all add: mouse_callback_def rewrite_None)
  next
    case (Some e)
    then have "insert event (dom (cg_events w)) = dom (cg_events w)"
      by auto
    with Some show ?thesis
      using converting by (cases type) (simp_all add: mouse_callback_def rewrite_Some)
  qed
qed

text \<open>The statement of C8 at a converted three-finger press.\<close>

theorem transformer_touches_two_fields_witness:
  "fst (mouse_callback NULL kCGEventLeftMouseDown 7 NULL (example_world\<lparr>current_fingers := 3\<rparr>)) = 7 \<and>
   cg_events (snd (mouse_callback NULL kCGEventLeftMouseDown 7 NULL
                     (example_world\<lparr>current_fingers := 3\<rparr>))) 8 = Some example_up_event \<and>
   (\<exists>e'. cg_events (snd (mouse_callback NULL kCGEventLeftMouseDown 7 NULL
                            (example_world\<lparr>current_fingers := 3\<rparr>))) 7 = Some e' \<and>
      ev_type e' = kCGEventOtherMouseDown \<and>
      ev_location e' = (10, 20) \<and> ev_timestamp e' = 99 \<and>
      ev_integer_fields e' kCGMouseEventDeltaX = 0)"
proof -
  let ?w = "example_world\<lparr>current_fingers := 3\<rparr>"
  let ?w' = "snd (mouse_callback NULL kCGEventLeftMouseDown 7 NULL ?w)"
  note frame = transformer_touches_two_fields [of NULL kCGEventLeftMouseDown 7 NULL ?w]
  have obj7: "cg_events ?w 7 = Some example_event" and obj8: "cg_events ?w 8 = Some example_up_event"
    by (simp_all add: example_world_def)
  from frame have ret: "fst (mouse_callback NULL kCGEventLeftMouseDown 7 NULL ?w) = 7"
    by blast
  from frame have "cg_events ?w' 8 = cg_events ?w 8"
    by simp
  with obj8 have other: "cg_events ?w' 8 = Some example_up_event"
    by simp
  from frame obj7 obtain e' where e': "cg_events ?w' 7 = Some e'"
      "ev_location e' = ev_location example_event" "ev_timestamp e' = ev_timestamp example_event"
      "ev_integer_fields e' kCGMouseEventDeltaX = ev_integer_fields example_event kCGMouseEventDeltaX"
    by auto
  have "cg_events ?w' 7 = Some (rewritten_as kCGEventOtherMouseDown example_event)"
    using obj7 by (simp add: mouse_callback_def rewrite_Some rewritten_as_def example_world_def)
  with e'(1) have "e' = rewritten_as kCGEventOtherMouseDown example_event"
    by simp
  then have "ev_type e' = kCGEventOtherMouseDown"
    by (simp add: rewritten_as_def)
  with e' ret other show ?thesis
    by (auto simp add: example_event_def)
qed

text \<open>
  Claim C10: the event transformer and the contact tracker of \<^verbatim>\<open>main.c\<close> are
  extensionally equal to those of \<^verbatim>\<open>backend.c\<close>: same returned event, same world
  (event object, flag, contact count) for every argument.
\<close>

theorem main_callbacks_equal_backend:
  "main_mouse_callback proxy type event refcon w = mouse_callback proxy type event refcon w \<and>
   main_touch_callback device fingers nFingers timestamp frame w =
     touch_callback device fingers nFingers timestamp frame w"
  by (simp add: main_mouse_callback_def mouse_callback_def main_touch_callback_def
        touch_callback_def)

text \<open>The statement of C10 at a three-finger press and at a frame report.\<close>

theorem main_callbacks_equal_backend_witness:
  "main_mouse_callback NULL kCGEventLeftMouseDown 7 NULL (example_world\<lparr>current_fingers := 3\<rparr>) =
     mouse_callback NULL kCGEventLeftMouseDown 7 NULL (example_world\<lparr>current_fingers := 3\<rparr>) \<and>
   main_touch_callback 1 [] 2 0 0 (example_world\<lparr>current_fingers := 3\<rparr>) =
     touch_callback 1 [] 2 0 0 (example_world\<lparr>current_fingers := 3\<rparr>)"
  using main_callbacks_equal_backend
          [of NULL kCGEventLeftMouseDown 7 NULL "example_world\<lparr>current_fingers := 3\<rparr>" 1 "[]" 2 0 0]
  by simp

section \<open>The log of system calls\<close>

lemma emit_fields [simp]:
  "os_trace (emit c w) = os_trace w @ [c]"
  "cf_arrays (emit c w) = cf_arrays w"
  "cg_events (emit c w) = cg_events w"
  "current_fingers (emit c w) = current_fingers w"
  "is_middle_click (emit c w) = is_middle_click w"
  "list_creates (emit c w) = list_creates w"
  "tap_creates (emit c w) = tap_creates w"
  "src_creates (emit c w) = src_creates w"
  "loop_runs (emit c w) = loop_runs w"
  by (simp_all add: emit_def)

lemma emit_as_update: "emit c w = w\<lparr>os_trace := os_trace w @ [c]\<rparr>"
  by (simp add: emit_def)

section \<open>The loops over the device set\<close>

lemma CFArrayGetValueAtIndex_cong:
  "cf_arrays w' = cf_arrays w \<Longrightarrow> CFArrayGetValueAtIndex w' = CFArrayGetValueAtIndex w"
  by (intro ext) (simp add: CFArrayGetValueAtIndex_def)

lemma set_handles_from_cong:
  assumes "cf_arrays w' = cf_arrays w"
  shows "set_handles_from w' ds i = set_handles_from w ds i"
  unfolding set_handles_from_def CFArrayGetValueAtIndex_cong [OF assms] ..

lemma set_handles_from_log [simp]:
  "set_handles_from (w\<lparr>os_trace := t\<rparr>) ds i = set_handles_from w ds i"
  by (rule set_handles_from_cong) simp

lemma set_handles_from_step:
  "i < len ds \<Longrightarrow>
     set_handles_from w ds i =
       (if CFArrayGetValueAtIndex w (array ds) i \<noteq> NULL
        then [CFArrayGetValueAtIndex w (array ds) i] else []) @ set_handles_from w ds (i + 1)"
  by (simp add: set_handles_from_def upto_rec1 [of i "len ds - 1"])

lemma set_handles_from_done: "\<not> i < len ds \<Longrightarrow> set_handles_from w ds i = []"
  by (simp add: set_handles_from_def)

lemma teardown_calls_append:
  "teardown_calls (xs @ ys) = teardown_calls xs @ teardown_calls ys"
  by (simp add: teardown_calls_def)

lemma register_calls_append:
  "register_calls (xs @ ys) = register_calls xs @ register_calls ys"
  by (simp add: register_calls_def)

lemma devices_cleanup_from_log:
  "devices_cleanup_from ds i w =
     w\<lparr>os_trace := os_trace w @ teardown_calls (set_handles_from w ds i)\<rparr>"
proof (induction ds i w rule: devices_cleanup_from.induct)
  case (1 ds i w)
  show ?case
  proof (cases "i < len ds")
    case False
    then have "devices_cleanup_from ds i w = w"
      by (subst devices_cleanup_from.simps) simp
    with False show ?thesis
      by (simp add: set_handles_from_done teardown_calls_def)
  next
    case True
    define d where "d = CFArrayGetValueAtIndex w (array ds) i"
    define w1 where
      "w1 = (if d \<noteq> NULL
             then emit (MTDeviceRelease d)
                    (emit (MTDeviceStop d) (emit (MTUnregisterContactFrameCallback d) w))
             else w)"
    have w1: "w1 = w\<lparr>os_trace := os_trace w @ teardown_calls (if d \<noteq> NULL then [d] else [])\<rparr>"
      by (simp add: w1_def teardown_calls_def emit_as_update)
    have step: "devices_cleanup_from ds i w = devices_cleanup_from ds (i + 1) w1"
      using True by (subst devices_cleanup_from.simps) (simp add: Let_def w1_def d_def)
    have "devices_cleanup_from ds (i + 1) w1 =
            w1\<lparr>os_trace := os_trace w1 @ teardown_calls (set_handles_from w1 ds (i + 1))\<rparr>"
      using True unfolding w1_def d_def by (rule "1.IH") simp_all
    also have "\<dots> = w\<lparr>os_trace := os_trace w @ teardown_calls (set_handles_from w ds i)\<rparr>"
      using True
      by (simp add: w1 set_handles_from_step [of i ds w] teardown_calls_append d_def)
    finally show ?thesis
      using step by simp
  qed
qed


lemma devices_register_from_log:
  "devices_register_from ds i w =
     w\<lparr>os_trace := os_trace w @ register_calls (set_handles_from w ds i)\<rparr>"
proof (induction ds i w rule: devices_register_from.induct)
  case (1 ds i w)
  show ?case
  proof (cases "i < len ds")
    case False
    then have "devices_register_from ds i w = w"
      by (subst devices_register_from.simps) simp
    with False show ?thesis
      by (simp add: set_handles_from_done register_calls_def)
  next
    case True
    define d where "d = CFArrayGetValueAtIndex w (array ds) i"
    define w1 where
      "w1 = (if d \<noteq> NULL
             then emit (MTDeviceStart d 0) (emit (MTRegisterContactFrameCallback d) w)
             else w)"
    have w1: "w1 = w\<lparr>os_trace := os_trace w @ register_calls (if d \<noteq> NULL then [d] else [])\<rparr>"
      by (simp add: w1_def register_calls_def emit_as_update)
    have step: "devices_register_from ds i w = devices_register_from ds (i + 1) w1"
      using True by (subst devices_register_from.simps) (simp add: Let_def w1_def d_def)
    have "devices_register_from ds (i + 1) w1 =
            w1\<lparr>os_trace := os_trace w1 @ register_calls (set_handles_from w1 ds (i + 1))\<rparr>"
      using True unfolding w1_def d_def by (rule "1.IH") simp_all
    also have "\<dots> = w\<lparr>os_trace := os_trace w @ register_calls (set_handles_from w ds i)\<rparr>"
      using True
      by (simp add: w1 set_handles_from_step [of i ds w] register_calls_append d_def)
    finally show ?thesis
      using step by simp
  qed
qed

lemma devices_cleanup_log:
  "devices_cleanup ds w = w\<lparr>os_trace := os_trace w @ teardown_calls (set_handles w ds)\<rparr>"
  by (simp add: devices_cleanup_def set_handles_def devices_cleanup_from_log)

lemma devices_register_log:
  "devices_register ds callback w =
     w\<lparr>os_trace := os_trace w @ register_calls (set_handles w ds)\<rparr>"
  by (simp add: devices_register_def set_handles_def devices_register_from_log)

lemma release_iterator_log:
  "release_iterator items w = w\<lparr>os_trace := os_trace w @ iterator_calls items\<rparr>"
  by (induction items arbitrary: w) (simp_all add: iterator_calls_def emit_as_update)

lemma failed_attempts_Suc:
  "failed_attempts (Suc n) = [CGEventTapCreate, sleep 1] @ failed_attempts n"
  by (simp add: failed_attempts_def)

section \<open>The acquisition loop\<close>


lemma tap_event_same: "tap_event state = t \<Longrightarrow> state\<lparr>tap_event := t\<rparr> = state"
  by (cases state) simp

lemma tap_create_from_stop:
  assumes "\<not> (tap_event state = NULL \<and> i < 300)"
  shows "tap_create_from env i state w = (state, w)"
  by (subst tap_create_from.simps) (simp only: assms if_False)

lemma world_log_then_count:
  "w\<lparr>tap_creates := n, os_trace := t\<rparr> = w\<lparr>os_trace := t, tap_creates := n\<rparr>"
  by (cases w) simp

lemma tap_create_from_failure:
  assumes "tap_event state = NULL" and "i < 300" and "CGEventTapCreate_ret env (tap_creates w) = NULL"
  shows "tap_create_from env i state w =
           tap_create_from env (i + 1) state
             (w\<lparr>os_trace := os_trace w @ [CGEventTapCreate, sleep 1],
                tap_creates := tap_creates w + 1\<rparr>)"
  using assms
  by (subst tap_create_from.simps)
     (simp add: Let_def tap_event_same emit_as_update world_log_then_count)

lemma tap_create_from_success:
  assumes "tap_event state = NULL" and "i < 300" and "CGEventTapCreate_ret env (tap_creates w) \<noteq> NULL"
  shows "tap_create_from env i state w =
           (state\<lparr>tap_event := CGEventTapCreate_ret env (tap_creates w)\<rparr>,
            w\<lparr>os_trace := os_trace w @ [CGEventTapCreate], tap_creates := tap_creates w + 1\<rparr>)"
proof -
  let ?state1 = "state\<lparr>tap_event := CGEventTapCreate_ret env (tap_creates w)\<rparr>"
  let ?w1 = "(emit CGEventTapCreate w)\<lparr>tap_creates := tap_creates w + 1\<rparr>"
  have "tap_create_from env i state w = tap_create_from env (i + 1) ?state1 ?w1"
    using assms by (subst tap_create_from.simps) (simp add: Let_def)
  also have "\<dots> = (?state1, ?w1)"
    using assms by (intro tap_create_from_stop) simp
  finally show ?thesis
    by (simp add: emit_as_update)
qed

lemma tap_create_from_failures:
  assumes "tap_event state = NULL"
    and "\<forall>k<n. CGEventTapCreate_ret env (tap_creates w + k) = NULL"
    and "i + int n \<le> 300"
  shows "tap_create_from env i state w =
           tap_create_from env (i + int n) state
             (w\<lparr>os_trace := os_trace w @ failed_attempts n, tap_creates := tap_creates w + n\<rparr>)"
  using assms
proof (induction n arbitrary: i w)
  case 0
  show ?case by (simp add: failed_attempts_def)
next
  case (Suc n)
  let ?w1 = "w\<lparr>os_trace := os_trace w @ [CGEventTapCreate, sleep 1],
               tap_creates := tap_creates w + 1\<rparr>"
  from Suc.prems have first: "CGEventTapCreate_ret env (tap_creates w) = NULL"
    by (metis add.right_neutral zero_less_Suc)
  have later: "\<forall>k<n. CGEventTapCreate_ret env (tap_creates ?w1 + k) = NULL"
  proof (intro allI impI)
    fix k assume "k < n"
    then have "Suc k < Suc n" by simp
    with Suc.prems(2) have "CGEventTapCreate_ret env (tap_creates w + Suc k) = NULL"
      by blast
    then show "CGEventTapCreate_ret env (tap_creates ?w1 + k) = NULL"
      by simp
  qed
  have "tap_create_from env i state w = tap_create_from env (i + 1) state ?w1"
    using Suc.prems first by (intro tap_create_from_failure) simp_all
  also have "\<dots> = tap_create_from env (i + 1 + int n) state
                      (?w1\<lparr>os_trace := os_trace ?w1 @ failed_attempts n,
                           tap_creates := tap_creates ?w1 + n\<rparr>)"
    using Suc.prems later by (intro Suc.IH) simp_all
  also have "?w1\<lparr>os_trace := os_trace ?w1 @ failed_attempts n, tap_creates := tap_creates ?w1 + n\<rparr> =
             w\<lparr>os_trace := os_trace w @ failed_attempts (Suc n),
               tap_creates := tap_creates w + Suc n\<rparr>"
    by (simp add: failed_attempts_Suc)
  also have "i + 1 + int n = i + int (Suc n)"
    by simp
  finally show ?case .
qed

lemma tap_create_always_denied:
  assumes "tap_event state = NULL"
    and "\<forall>k<300. CGEventTapCreate_ret env (tap_creates w + k) = NULL"
  shows "tap_create_from env 0 state w =
           (state, w\<lparr>os_trace := os_trace w @ failed_attempts 300,
                      tap_creates := tap_creates w + 300\<rparr>)"
proof -
  have "tap_create_from env 0 state w =
          tap_create_from env (0 + int 300) state
            (w\<lparr>os_trace := os_trace w @ failed_attempts 300, tap_creates := tap_creates w + 300\<rparr>)"
    using assms by (intro tap_create_from_failures) simp_all
  also have "\<dots> = (state, w\<lparr>os_trace := os_trace w @ failed_attempts 300,
                            tap_creates := tap_creates w + 300\<rparr>)"
    by (intro tap_create_from_stop) simp
  finally show ?thesis .
qed

lemma tap_create_granted_at:
  assumes "tap_event state = NULL" and "j < 300"
    and "\<forall>k<j. CGEventTapCreate_ret env (tap_creates w + k) = NULL"
    and "CGEventTapCreate_ret env (tap_creates w + j) \<noteq> NULL"
  shows "tap_create_from env 0 state w =
           (state\<lparr>tap_event := CGEventTapCreate_ret env (tap_creates w + j)\<rparr>,
            w\<lparr>os_trace := os_trace w @ failed_attempts j @ [CGEventTapCreate],
              tap_creates := tap_creates w + j + 1\<rparr>)"
proof -
  let ?wj = "w\<lparr>os_trace := os_trace w @ failed_attempts j, tap_creates := tap_creates w + j\<rparr>"
  have "tap_create_from env 0 state w = tap_create_from env (0 + int j) state ?wj"
    using assms by (intro tap_create_from_failures) simp_all
  also have "\<dots> =
      (state\<lparr>tap_event := CGEventTapCreate_ret env (tap_creates ?wj)\<rparr>,
       ?wj\<lparr>os_trace := os_trace ?wj @ [CGEventTapCreate], tap_creates := tap_creates ?wj + 1\<rparr>)"
    using assms by (intro tap_create_from_success) simp_all
  finally show ?thesis by simp
qed

lemma listen_click_loop_denied:
  assumes "tap_event state = NULL"
    and "\<forall>k<300. CGEventTapCreate_ret env (tap_creates w + k) = NULL"
  shows "listen_click_loop env state w =
           Some (Inr (1, state,
                      w\<lparr>os_trace := os_trace w @ failed_attempts 300 @ [fputs permission_message],
                        tap_creates := tap_creates w + 300\<rparr>))"
  using assms
  by (simp add: listen_click_loop_def tap_create_always_denied emit_as_update)


section \<open>After the acquisition phase\<close>

text \<open>
  Nothing the program does once the tap exists (the run loop and its callbacks, the
  refresh of the device set, the teardown) makes a call of the acquisition phase.
\<close>

lemma quiet_sinceI:
  "os_trace w' = os_trace w @ rest \<Longrightarrow> list_all (\<lambda>c. \<not> acquisition_call c) rest \<Longrightarrow>
     quiet_since w w'"
  by (simp add: quiet_since_def)

lemma quiet_sinceD:
  assumes "quiet_since w w'"
  shows "\<exists>rest. os_trace w' = os_trace w @ rest \<and> list_all (\<lambda>c. \<not> acquisition_call c) rest"
proof (intro exI conjI)
  show "os_trace w' = os_trace w @ drop (length (os_trace w)) (os_trace w')"
    using assms append_take_drop_id [of "length (os_trace w)" "os_trace w'"]
    by (simp add: quiet_since_def)
  show "list_all (\<lambda>c. \<not> acquisition_call c) (drop (length (os_trace w)) (os_trace w'))"
    using assms by (simp add: quiet_since_def)
qed


lemma quiet_trans:
  assumes "quiet_since a b" and "quiet_since b c"
  shows "quiet_since a c"
proof -
  from assms(1) obtain r1 where r1: "os_trace b = os_trace a @ r1"
      "list_all (\<lambda>c. \<not> acquisition_call c) r1"
    using quiet_sinceD by blast
  from assms(2) obtain r2 where r2: "os_trace c = os_trace b @ r2"
      "list_all (\<lambda>c. \<not> acquisition_call c) r2"
    using quiet_sinceD by blast
  show ?thesis
    by (rule quiet_sinceI [where rest = "r1 @ r2"]) (simp_all add: r1 r2)
qed


lemma quiet_emit:
  "quiet_since w w' \<Longrightarrow> \<not> acquisition_call c \<Longrightarrow> quiet_since w (emit c w')"
  by (rule quiet_trans [of w w']) (simp_all add: quiet_sinceI [where rest = "[c]"])












section \<open>Teardown\<close>

lemma set_handles_cong:
  "cf_arrays w' = cf_arrays w \<Longrightarrow> set_handles w' ds = set_handles w ds"
  unfolding set_handles_def by (rule set_handles_from_cong)

lemma set_handles_log [simp]:
  "set_handles (w\<lparr>os_trace := t\<rparr>) ds = set_handles w ds"
  by (rule set_handles_cong) simp

lemma set_handles_count [simp]:
  "set_handles (w\<lparr>tap_creates := n\<rparr>) ds = set_handles w ds"
  by (rule set_handles_cong) simp

lemma stop_io_notifications_eq:
  "stop_io_notifications state w =
     (state\<lparr>port := NULL\<rparr>, w\<lparr>os_trace := os_trace w @ stop_io_calls state\<rparr>)"
  by (cases state) (simp add: stop_io_notifications_def stop_io_calls_def emit_as_update)

lemma stop_click_loop_eq:
  "stop_click_loop state w =
     (state\<lparr>tap_event := NULL\<rparr>, w\<lparr>os_trace := os_trace w @ stop_click_calls state\<rparr>)"
  by (cases state) (simp add: stop_click_loop_def stop_click_calls_def emit_as_update)

lemma state_cleanup_eq:
  "state_cleanup state w =
     (state\<lparr>port := NULL, tap_event := NULL\<rparr>,
      w\<lparr>os_trace := os_trace w @ stop_io_calls state @ stop_click_calls state @
                      teardown_calls (set_handles w (devices state))\<rparr>)"
proof -
  have "stop_click_calls (state\<lparr>port := NULL\<rparr>) = stop_click_calls state"
    by (simp add: stop_click_calls_def)
  then show ?thesis
    by (simp add: state_cleanup_def stop_io_notifications_eq stop_click_loop_eq
          devices_cleanup_log)
qed

lemma teardown_then_stop:
  assumes "w' = snd (stop_io_notifications s (devices_cleanup (devices s) w))"
    and "state' = fst (stop_io_notifications s (devices_cleanup (devices s) w))"
  shows "port state' = NULL \<and> devices state' = devices s \<and>
         os_trace w' = os_trace w @ teardown_calls (set_handles w' (devices state')) @ stop_io_calls s"
proof -
  let ?w1 = "w\<lparr>os_trace := os_trace w @ teardown_calls (set_handles w (devices s))\<rparr>"
  have w': "w' = ?w1\<lparr>os_trace := os_trace ?w1 @ stop_io_calls s\<rparr>"
    and state': "state' = s\<lparr>port := NULL\<rparr>"
    using assms by (simp_all add: stop_io_notifications_eq devices_cleanup_log)
  have "set_handles w' (devices s) = set_handles w (devices s)"
    by (rule set_handles_cong) (simp add: w')
  then show ?thesis
    by (simp add: w' state')
qed

text \<open>
  Whenever the endless loop of \<^const>\<open>run_click_loop\<close> returns, it has just torn down the
  device set and closed the notification port.
\<close>

lemmas click_loop_forever_induct =
  click_loop_forever.raw_induct [rotated 1, consumes 1, case_names step]

lemma click_loop_forever_returns:
  assumes "click_loop_forever env state w = Some y"
  shows "\<forall>state' w'. y = Inr (state', w') \<longrightarrow>
           port state' = NULL \<and>
           (\<exists>before after.
              os_trace w' = before @ teardown_calls (set_handles w' (devices state')) @ after)"
  using assms
proof (induction rule: click_loop_forever_induct)
  case (step loop env state w y)
  show ?case
  proof (cases "listen_click_loop env state w")
    case None
    with step.hyps show ?thesis by simp
  next
    case (Some res)
    show ?thesis
    proof (cases res)
      case (Inl e)
      with Some step.hyps show ?thesis by auto
    next
      case (Inr r)
      obtain rc state1 w1 where r: "r = (rc, state1, w1)" by (cases r)
      show ?thesis
      proof (cases "rc = 0")
        case True
        with Some Inr r step.hyps have "loop env state1 w1 = Some y"
          by simp
        then show ?thesis by (rule step.IH)
      next
        case False
        let ?end = "stop_io_notifications state1 (devices_cleanup (devices state1) w1)"
        from False Some Inr r step.hyps have y: "y = Inr (fst ?end, snd ?end)"
          by (simp add: Let_def case_prod_beta)
        have torn: "port (fst ?end) = NULL \<and> devices (fst ?end) = devices state1 \<and>
              os_trace (snd ?end) =
                os_trace w1 @ teardown_calls (set_handles (snd ?end) (devices (fst ?end))) @
                stop_io_calls state1"
          by (rule teardown_then_stop) simp_all
        show ?thesis
        proof (intro allI impI conjI)
          fix state' w'
          assume "y = Inr (state', w')"
          with y have "(state', w') = ?end"
            by simp
          then have ends: "state' = fst ?end" "w' = snd ?end"
            by (metis fst_conv, metis snd_conv)
          from torn show "port state' = NULL"
            by (simp add: ends)
          from torn have "os_trace w' =
              os_trace w1 @ teardown_calls (set_handles w' (devices state')) @ stop_io_calls state1"
            by (simp add: ends)
          then show "\<exists>before after.
              os_trace w' = before @ teardown_calls (set_handles w' (devices state')) @ after"
            by blast
        qed
      qed
    qed
  qed
qed

lemma run_click_loop_returns:
  assumes "run_click_loop env state w = Some (Inr (state', w'))"
  shows "port state' = NULL \<and>
         (\<exists>before after.
            os_trace w' = before @ teardown_calls (set_handles w' (devices state')) @ after)"
proof -
  let ?w1 = "devices_register (devices state) () w"
  obtain kres state1 w2 where listen: "listen_io_notification env state ?w1 = (kres, state1, w2)"
    by (cases "listen_io_notification env state ?w1")
  show ?thesis
  proof (cases "kres = KERN_SUCCESS")
    case True
    with assms listen have "click_loop_forever env state1 w2 = Some (Inr (state', w'))"
      by (simp add: run_click_loop_def Let_def)
    then show ?thesis
      using click_loop_forever_returns by blast
  next
    case False
    let ?w3 = "emit (fputs ''Failed to add device notification.'') w2"
    let ?w4 = "?w3\<lparr>os_trace := os_trace ?w3 @ stop_io_calls state1\<rparr>"
    from False assms listen
    have state': "state' = state1\<lparr>port := NULL\<rparr>"
      and w': "w' = devices_cleanup (devices state1) ?w4"
      by (simp_all add: run_click_loop_def Let_def stop_io_notifications_eq)
    have "set_handles w' (devices state1) = set_handles ?w4 (devices state1)"
      by (rule set_handles_cong) (simp add: w' devices_cleanup_log)
    then have "os_trace w' = os_trace ?w4 @ teardown_calls (set_handles w' (devices state')) @ []"
      by (simp add: w' state' devices_cleanup_log)
    moreover from state' have "port state' = NULL"
      by simp
    ultimately show ?thesis by blast
  qed
qed


lemma listen_io_notification_eq:
  "listen_io_notification env state w =
     (fst (IOServiceAddMatchingNotification_ret env),
      state\<lparr>port := IONotificationPortCreate_ret env\<rparr>,
      w\<lparr>os_trace := os_trace w @
           [IONotificationPortCreate, CFRunLoopAddSource (IONotificationPortCreate_ret env),
            IOServiceAddMatchingNotification (IONotificationPortCreate_ret env)] @
           (if fst (IOServiceAddMatchingNotification_ret env) = KERN_SUCCESS
            then iterator_calls (snd (IOServiceAddMatchingNotification_ret env)) else [])\<rparr>)"
  by (cases "IOServiceAddMatchingNotification_ret env")
     (simp add: listen_io_notification_def Let_def release_iterator_log emit_as_update)

lemma run_click_loop_denied:
  assumes idle: "tap_event state = NULL"
    and denied: "\<forall>k. CGEventTapCreate_ret env k = NULL"
    and watching: "fst (IOServiceAddMatchingNotification_ret env) = KERN_SUCCESS"
  shows "run_click_loop env state w =
           Some (Inr (state\<lparr>port := NULL\<rparr>,
             w\<lparr>os_trace := os_trace w @ register_calls (set_handles w (devices state)) @
                  [IONotificationPortCreate, CFRunLoopAddSource (IONotificationPortCreate_ret env),
                   IOServiceAddMatchingNotification (IONotificationPortCreate_ret env)] @
                  iterator_calls (snd (IOServiceAddMatchingNotification_ret env)) @
                  failed_attempts 300 @ [fputs permission_message] @
                  teardown_calls (set_handles w (devices state)) @
                  stop_io_calls (state\<lparr>port := IONotificationPortCreate_ret env\<rparr>),
               tap_creates := tap_creates w + 300\<rparr>))"
proof -
  define state1 where "state1 = state\<lparr>port := IONotificationPortCreate_ret env\<rparr>"
  define w2 where
    "w2 = w\<lparr>os_trace := os_trace w @ register_calls (set_handles w (devices state)) @
              [IONotificationPortCreate, CFRunLoopAddSource (IONotificationPortCreate_ret env),
               IOServiceAddMatchingNotification (IONotificationPortCreate_ret env)] @
              iterator_calls (snd (IOServiceAddMatchingNotification_ret env))\<rparr>"
  define w3 where
    "w3 = w2\<lparr>os_trace := os_trace w2 @ failed_attempts 300 @ [fputs permission_message],
              tap_creates := tap_creates w2 + 300\<rparr>"
  have start: "run_click_loop env state w = click_loop_forever env state1 w2"
    using watching
    by (simp add: run_click_loop_def devices_register_log listen_io_notification_eq
          state1_def w2_def)
  have "tap_event state1 = NULL"
    using idle by (simp add: state1_def)
  then have attempt: "listen_click_loop env state1 w2 = Some (Inr (1, state1, w3))"
    unfolding w3_def using denied by (intro listen_click_loop_denied) simp_all
  have "click_loop_forever env state1 w2 =
          Some (Inr (state1\<lparr>port := NULL\<rparr>,
            w3\<lparr>os_trace := os_trace w3 @ teardown_calls (set_handles w3 (devices state1)) @
                  stop_io_calls state1\<rparr>))"
    by (subst click_loop_forever.simps)
       (simp add: attempt devices_cleanup_log stop_io_notifications_eq)
  moreover have "set_handles w3 (devices state) = set_handles w (devices state)"
    by (rule set_handles_cong) (simp add: w3_def w2_def)
  moreover have "devices state1 = devices state"
    by (simp add: state1_def)
  ultimately show ?thesis
    using start by (simp add: w3_def w2_def state1_def)
qed

lemma example_handles: "set_handles example_world example_devices = [11, 12]"
  by (simp add: set_handles_def set_handles_from_def example_world_def example_devices_def
        CFArrayGetValueAtIndex_def upto_rec1)


section \<open>The interception supervisor of \<^verbatim>\<open>main.c\<close>\<close>


lemma main_touch_callback_eq: "main_touch_callback = touch_callback"
  by (intro ext) (simp add: main_touch_callback_def touch_callback_def)







section \<open>Once the tap is granted\<close>








text \<open>
  \<^const>\<open>listen_click_loop\<close> is entered without a tap: the state \<^const>\<open>new_state\<close> builds has
  none, and a call that returns 0 has reset it.
\<close>

lemma new_state_idle:
  assumes "new_state env w = Inr (state, w')"
  shows "tap_event state = NULL \<and> run_loop_src state = NULL \<and> port state = NULL"
proof (cases "multitouch_devices env w")
  case (Inl e)
  with assms show ?thesis by (simp add: new_state_def)
next
  case (Inr r)
  with assms show ?thesis by (cases r) (auto simp add: new_state_def)
qed

lemma listen_click_loop_leaves_idle:
  assumes "listen_click_loop env state w = Some (Inr (0, state', w'))"
  shows "tap_event state' = NULL"
proof -
  obtain state1 w1 where acquired: "tap_create_from env 0 state w = (state1, w1)"
    by (cases "tap_create_from env 0 state w")
  define state2 where
    "state2 = state1\<lparr>run_loop_src := CFMachPortCreateRunLoopSource_ret env (src_creates w1)\<rparr>"
  define w4 where
    "w4 = emit (CGEventTapEnable (tap_event state2) True)
            (emit (CFRunLoopAddSource (run_loop_src state2))
               ((emit (CFMachPortCreateRunLoopSource (tap_event state1)) w1)
                  \<lparr>src_creates := src_creates w1 + 1\<rparr>))"
  from assms acquired obtain state3 w5 where
    "CFRunLoopRun_call env state2 w4 = Some (Inr (state3, w5))"
    and "state' = fst (stop_click_loop state3 w5)"
    by (auto simp add: listen_click_loop_def Let_def state2_def w4_def
          split: if_splits option.splits sum.splits prod.splits)
  then show ?thesis
    by (simp add: stop_click_loop_eq)
qed

section \<open>Interception supervisor and device set: the claims\<close>

text \<open>
  A complete run of \<^const>\<open>listen_click_loop\<close> on the host that grants the tap at the third
  attempt: two failed attempts with their waits, the third attempt, the run loop with a
  three-finger click (both events rewritten, although the fingers lift before the
  release), and the teardown.
\<close>

lemma granted_run:
  "listen_click_loop env_granted example_state example_world =
     Some (Inr (0, example_state\<lparr>run_loop_src := 41\<rparr>,
       example_world
         \<lparr>cg_events := [7 \<mapsto> rewritten_as kCGEventOtherMouseDown example_event,
                        8 \<mapsto> rewritten_as kCGEventOtherMouseUp example_up_event],
          os_trace := failed_attempts 2 @
             [CGEventTapCreate, CFMachPortCreateRunLoopSource 40, CFRunLoopAddSource 41,
              CGEventTapEnable 40 True, CFRunLoopRun, CGEventTapEnable 40 False, CFRelease 40,
              CFRunLoopRemoveSource 41, CFRelease 41],
          tap_creates := 3, src_creates := 1, loop_runs := 1\<rparr>))"
proof -
  have acquired: "tap_create_from env_granted 0 example_state example_world =
      (example_state\<lparr>tap_event := 40\<rparr>,
       example_world\<lparr>os_trace := failed_attempts 2 @ [CGEventTapCreate], tap_creates := 3\<rparr>)"
    using tap_create_granted_at [of example_state 2 env_granted example_world]
    by (simp add: env_granted_def example_state_def example_world_def less_Suc_eq numeral_2_eq_2)
  show ?thesis
    by (simp add: listen_click_loop_def acquired Let_def)
       (simp add: env_granted_def example_state_def example_world_def example_frame_def
          CFRunLoopRun_call_def deliver_def touch_callback_def mouse_callback_def rewrite_Some
          stop_click_loop_def emit_def rewritten_as_def example_event_def example_up_event_def
          fun_upd_twist)
qed






text \<open>
  Claim C7 at a concrete set (handles 11 and 12, and a \<^verbatim>\<open>NULL\<close> entry): a second
  \<^const>\<open>devices_cleanup\<close> right after the first unregisters, stops and releases both
  handles again; handle 11 is released twice. The claim asks for the opposite.
\<close>

theorem second_teardown_releases_again:
  "set_handles example_world example_devices = [11, 12] \<and>
   os_trace (devices_cleanup example_devices (devices_cleanup example_devices example_world)) =
     [MTUnregisterContactFrameCallback 11, MTDeviceStop 11, MTDeviceRelease 11,
      MTUnregisterContactFrameCallback 12, MTDeviceStop 12, MTDeviceRelease 12,
      MTUnregisterContactFrameCallback 11, MTDeviceStop 11, MTDeviceRelease 11,
      MTUnregisterContactFrameCallback 12, MTDeviceStop 12, MTDeviceRelease 12] \<and>
   count_list
     (os_trace (devices_cleanup example_devices (devices_cleanup example_devices example_world)))
     (MTDeviceRelease 11) = 2"
proof -
  have empty: "os_trace example_world = []"
    by (simp add: example_world_def)
  have once: "devices_cleanup example_devices example_world =
      example_world\<lparr>os_trace := teardown_calls [11, 12]\<rparr>"
    by (simp add: devices_cleanup_log example_handles empty)
  have twice: "os_trace (devices_cleanup example_devices (devices_cleanup example_devices example_world)) =
      teardown_calls [11, 12] @ teardown_calls [11, 12]"
    by (simp add: once devices_cleanup_log example_handles empty)
  show ?thesis
    by (simp add: twice example_handles) (simp add: teardown_calls_def)
qed

text \<open>
  Claim C9. \<^const>\<open>devices_cleanup\<close> changes nothing but the log of calls: the device
  array is not cleared, and the set passed by value still lists every handle it has just
  released; \<^const>\<open>state_cleanup\<close> leaves the \<^verbatim>\<open>devices\<close> field as it was. Consequently,
  whenever \<^const>\<open>run_click_loop\<close> returns, its log contains the teardown of the handles the
  state still lists, and \<^const>\<open>state_cleanup\<close> after it appends the same teardown of the
  same handles once more. On the fatal path (notification set up, every attempt to create
  the tap refused) \<^const>\<open>run_click_loop\<close> does return, with the log written out below.
\<close>

theorem teardown_keeps_set_and_repeats:
  "devices_cleanup ds w = w\<lparr>os_trace := os_trace w @ teardown_calls (set_handles w ds)\<rparr> \<and>
   set_handles (devices_cleanup ds w) ds = set_handles w ds \<and>
   devices (fst (state_cleanup state w)) = devices state \<and>
   (\<forall>state' w'. run_click_loop env state w = Some (Inr (state', w')) \<longrightarrow>
      (\<exists>before after.
         os_trace w' = before @ teardown_calls (set_handles w' (devices state')) @ after) \<and>
      os_trace (snd (state_cleanup state' w')) =
        os_trace w' @ stop_click_calls state' @ teardown_calls (set_handles w' (devices state'))) \<and>
   (tap_event state = NULL \<and> (\<forall>k. CGEventTapCreate_ret env k = NULL) \<and>
    fst (IOServiceAddMatchingNotification_ret env) = KERN_SUCCESS \<longrightarrow>
      (\<exists>state' w'. run_click_loop env state w = Some (Inr (state', w')) \<and>
         devices state' = devices state \<and>
         set_handles w' (devices state') = set_handles w (devices state) \<and>
         os_trace w' =
           os_trace w @ register_calls (set_handles w (devices state)) @
           [IONotificationPortCreate, CFRunLoopAddSource (IONotificationPortCreate_ret env),
            IOServiceAddMatchingNotification (IONotificationPortCreate_ret env)] @
           iterator_calls (snd (IOServiceAddMatchingNotification_ret env)) @
           failed_attempts 300 @ [fputs permission_message] @
           teardown_calls (set_handles w (devices state)) @
           stop_io_calls (state\<lparr>port := IONotificationPortCreate_ret env\<rparr>)))"
proof (intro conjI allI impI)
  show "devices_cleanup ds w = w\<lparr>os_trace := os_trace w @ teardown_calls (set_handles w ds)\<rparr>"
    by (rule devices_cleanup_log)
  show "set_handles (devices_cleanup ds w) ds = set_handles w ds"
    by (rule set_handles_cong) (simp add: devices_cleanup_log)
  show "devices (fst (state_cleanup state w)) = devices state"
    by (simp add: state_cleanup_eq)
next
  fix state' w'
  assume returned: "run_click_loop env state w = Some (Inr (state', w'))"
  then show "\<exists>before after.
      os_trace w' = before @ teardown_calls (set_handles w' (devices state')) @ after"
    using run_click_loop_returns by blast
  from returned have "port state' = NULL"
    using run_click_loop_returns by blast
  then have "stop_io_calls state' = []"
    by (simp add: stop_io_calls_def)
  then show "os_trace (snd (state_cleanup state' w')) =
      os_trace w' @ stop_click_calls state' @ teardown_calls (set_handles w' (devices state'))"
    by (simp add: state_cleanup_eq)
next
  assume fatal: "tap_event state = NULL \<and> (\<forall>k. CGEventTapCreate_ret env k = NULL) \<and>
    fst (IOServiceAddMatchingNotification_ret env) = KERN_SUCCESS"
  let ?calls = "os_trace w @ register_calls (set_handles w (devices state)) @
           [IONotificationPortCreate, CFRunLoopAddSource (IONotificationPortCreate_ret env),
            IOServiceAddMatchingNotification (IONotificationPortCreate_ret env)] @
           iterator_calls (snd (IOServiceAddMatchingNotification_ret env)) @
           failed_attempts 300 @ [fputs permission_message] @
           teardown_calls (set_handles w (devices state)) @
           stop_io_calls (state\<lparr>port := IONotificationPortCreate_ret env\<rparr>)"
  let ?w' = "w\<lparr>os_trace := ?calls, tap_creates := tap_creates w + 300\<rparr>"
  from fatal have run: "run_click_loop env state w = Some (Inr (state\<lparr>port := NULL\<rparr>, ?w'))"
    by (intro run_click_loop_denied) simp_all
  show "\<exists>state' w'. run_click_loop env state w = Some (Inr (state', w')) \<and>
         devices state' = devices state \<and>
         set_handles w' (devices state') = set_handles w (devices state) \<and>
         os_trace w' = ?calls"
    by (intro exI [of _ "state\<lparr>port := NULL\<rparr>"] exI [of _ ?w']) (simp add: run)
qed

text \<open>
  The statement of C9 on the host that never grants the tap: the whole log of
  \<^const>\<open>run_click_loop\<close> followed by \<^const>\<open>state_cleanup\<close>, with the teardown of handles 11
  and 12 twice.
\<close>

theorem teardown_keeps_set_and_repeats_witness:
  "tap_event example_state = NULL \<and>
   fst (IOServiceAddMatchingNotification_ret env_denied) = KERN_SUCCESS \<and>
   set_handles example_world (devices example_state) = [11, 12] \<and>
   (\<exists>state' w'. run_click_loop env_denied example_state example_world = Some (Inr (state', w')) \<and>
      os_trace (snd (state_cleanup state' w')) =
        register_calls [11, 12] @
        [IONotificationPortCreate, CFRunLoopAddSource 3, IOServiceAddMatchingNotification 3,
         IOObjectRelease 21, IOObjectRelease 22] @
        failed_attempts 300 @ [fputs permission_message] @
        teardown_calls [11, 12] @ [IONotificationPortDestroy 3] @ teardown_calls [11, 12])"
proof -
  note facts = teardown_keeps_set_and_repeats
                 [of example_devices example_world example_state env_denied]
  have idle: "tap_event example_state = NULL"
    and watching: "fst (IOServiceAddMatchingNotification_ret env_denied) = KERN_SUCCESS"
    and denied: "\<forall>k. CGEventTapCreate_ret env_denied k = NULL"
    and handles: "set_handles example_world (devices example_state) = [11, 12]"
    by (simp_all add: example_state_def env_denied_def example_handles)
  from facts idle watching denied obtain state' w' where
    run: "run_click_loop env_denied example_state example_world = Some (Inr (state', w'))"
    and same: "devices state' = devices example_state"
      "set_handles w' (devices state') = set_handles example_world (devices example_state)"
    and log: "os_trace w' =
           os_trace example_world @ register_calls (set_handles example_world (devices example_state)) @
           [IONotificationPortCreate, CFRunLoopAddSource (IONotificationPortCreate_ret env_denied),
            IOServiceAddMatchingNotification (IONotificationPortCreate_ret env_denied)] @
           iterator_calls (snd (IOServiceAddMatchingNotification_ret env_denied)) @
           failed_attempts 300 @ [fputs permission_message] @
           teardown_calls (set_handles example_world (devices example_state)) @
           stop_io_calls (example_state\<lparr>port := IONotificationPortCreate_ret env_denied\<rparr>)"
    by blast
  from facts run have again: "os_trace (snd (state_cleanup state' w')) =
      os_trace w' @ stop_click_calls state' @ teardown_calls (set_handles w' (devices state'))"
    by blast
  have state': "state' = example_state"
    using run run_click_loop_denied [OF idle denied watching, of example_world]
    by (simp add: example_state_def)
  have released: "set_handles w' (devices state') = [11, 12]"
    using same handles by simp
  have quiet: "stop_click_calls state' = []"
    by (simp add: state' stop_click_calls_def example_state_def)
  have host: "os_trace example_world = []" "IONotificationPortCreate_ret env_denied = 3"
      "iterator_calls (snd (IOServiceAddMatchingNotification_ret env_denied)) =
         [IOObjectRelease 21, IOObjectRelease 22]"
      "stop_io_calls (example_state\<lparr>port := 3\<rparr>) = [IONotificationPortDestroy 3]"
    by (simp_all add: example_world_def env_denied_def iterator_calls_def stop_io_calls_def)
  have "os_trace (snd (state_cleanup state' w')) =
        register_calls [11, 12] @
        [IONotificationPortCreate, CFRunLoopAddSource 3, IOServiceAddMatchingNotification 3,
         IOObjectRelease 21, IOObjectRelease 22] @
        failed_attempts 300 @ [fputs permission_message] @
        teardown_calls [11, 12] @ [IONotificationPortDestroy 3] @ teardown_calls [11, 12]"
    by (simp add: again log released handles quiet host)
  with idle watching handles run show ?thesis
    by blast
qed

end
